theory Spec2Isabelle
  imports Main "HOL-Library.Sublist" "HOL-Library.Word"
begin

section \<open>Python values used by \<open>main.py\<close>\<close>

text \<open>
  A Python \<open>str\<close> is a sequence of Unicode code points; it is modelled as a list of
  natural numbers, one per code point, so that \<open>str.strip\<close> sees the same characters as
  the interpreter does.  The literals of the source are ASCII and are written with
  \<open>str_lit\<close>.
\<close>

type_synonym pystr = "nat list"

type_synonym pybytes = "nat list"

definition str_lit :: "string \<Rightarrow> pystr" where
  "str_lit s = map of_char s"

definition newline :: pystr where
  "newline = [10]"

definition quoted :: "pystr \<Rightarrow> pystr" where
  \<comment> \<open>the text between two apostrophes (code point 39)\<close>
  "quoted s = [39] @ s @ [39]"

definition py_isspace :: "nat \<Rightarrow> bool" where
  \<comment> \<open>the code points for which \<open>str.isspace\<close> holds\<close>
  "py_isspace c \<longleftrightarrow>
     c \<in> set [9, 10, 11, 12, 13, 28, 29, 30, 31, 32, 133, 160, 5760,
               8192, 8193, 8194, 8195, 8196, 8197, 8198, 8199, 8200, 8201, 8202,
               8232, 8233, 8239, 8287, 12288]"

definition py_lstrip :: "pystr \<Rightarrow> pystr" where
  "py_lstrip s = dropWhile py_isspace s"

definition py_rstrip :: "pystr \<Rightarrow> pystr" where
  "py_rstrip s = rev (dropWhile py_isspace (rev s))"

definition py_strip :: "pystr \<Rightarrow> pystr" where
  \<comment> \<open>\<open>s.strip()\<close>\<close>
  "py_strip s = py_rstrip (py_lstrip s)"

fun py_join :: "pystr \<Rightarrow> pystr list \<Rightarrow> pystr" where
  \<comment> \<open>\<open>sep.join(xs)\<close>\<close>
  "py_join sep [] = []"
| "py_join sep [x] = x"
| "py_join sep (x # y # ys) = x @ sep @ py_join sep (y # ys)"

function str_of_nat :: "nat \<Rightarrow> pystr" where
  \<comment> \<open>decimal rendering of a non-negative \<open>int\<close>, as in an f-string\<close>
  "str_of_nat n = (if n < 10 then [48 + n] else str_of_nat (n div 10) @ [48 + n mod 10])"
  by pat_completeness auto
termination
  by (relation "measure (\<lambda>n. n)") auto

declare str_of_nat.simps [simp del]

text \<open>
  The result of \<open>json.loads\<close>: \<open>None\<close>, \<open>bool\<close>, \<open>int\<close>, \<open>float\<close> (carried as its
  binary64 encoding and never inspected), \<open>str\<close>, \<open>list\<close> and \<open>dict\<close> (string keys, in
  insertion order).
\<close>

datatype json =
    JNull
  | JBool bool
  | JInt int
  | JFloat "64 word"
  | JString pystr
  | JArray "json list"
  | JObject "(pystr \<times> json) list"

section \<open>Exceptions\<close>

text \<open>
  The exceptions that occur while a request is handled.  \<open>HTTPException\<close> carries
  \<open>status_code\<close> and \<open>detail\<close>; \<open>NameError\<close> carries the unbound name; the other
  constructors carry the text that \<open>str(e)\<close> gives.  \<open>LibraryError\<close> stands for any other
  subclass of \<open>Exception\<close> raised by the oracle client, the network layer or the document
  reader.  \<open>RequestValidationError\<close> is raised by the web framework itself, before a
  handler runs, when the request lacks a required field.  \<open>BaseOnly\<close> stands for a \<open>BaseException\<close> that is not an \<open>Exception\<close>
  (\<open>KeyboardInterrupt\<close>, \<open>SystemExit\<close>, task cancellation), which \<open>except Exception\<close>
  does not catch.
\<close>

datatype exn =
    HTTPException nat pystr
  | JSONDecodeError pystr
  | NameError pystr
  | ValueError pystr
  | ValidationError pystr
  | LibraryError pystr
  | RequestValidationError pystr
  | BaseOnly pystr

fun is_Exception :: "exn \<Rightarrow> bool" where
  \<comment> \<open>\<open>isinstance(e, Exception)\<close>\<close>
  "is_Exception (BaseOnly m) = False"
| "is_Exception e = True"

fun is_JSONDecodeError :: "exn \<Rightarrow> bool" where
  \<comment> \<open>\<open>isinstance(e, json.JSONDecodeError)\<close>\<close>
  "is_JSONDecodeError (JSONDecodeError m) = True"
| "is_JSONDecodeError e = False"

fun py_str :: "exn \<Rightarrow> pystr" where
  \<comment> \<open>\<open>str(e)\<close>; an \<open>HTTPException\<close> prints as \<open>f"{status_code}: {detail}"\<close>\<close>
  "py_str (HTTPException sc detail) = str_of_nat sc @ str_lit '': '' @ detail"
| "py_str (NameError name) = str_lit ''name '' @ quoted name @ str_lit '' is not defined''"
| "py_str (JSONDecodeError m) = m"
| "py_str (ValueError m) = m"
| "py_str (ValidationError m) = m"
| "py_str (LibraryError m) = m"
| "py_str (RequestValidationError m) = m"
| "py_str (BaseOnly m) = m"

section \<open>Process configuration (lines 15 to 33)\<close>

record config =
  GEMINI_API_KEY :: pystr
  INPUT_LANG :: pystr
  OUTPUT_LANG :: pystr
  LLM_MODEL :: pystr

definition falsy :: "pystr option \<Rightarrow> bool" where
  \<comment> \<open>\<open>not v\<close> for the result of \<open>os.getenv\<close>: \<open>None\<close> or the empty string\<close>
  "falsy v = (case v of None \<Rightarrow> True | Some s \<Rightarrow> s = [])"

definition not_found :: "string \<Rightarrow> exn" where
  "not_found name = ValueError (str_lit name @ str_lit '' not found in .env file.'')"

definition require :: "(pystr \<Rightarrow> pystr option) \<Rightarrow> string \<Rightarrow> exn + pystr" where
  \<comment> \<open>\<open>X = os.getenv("X")\<close> together with its check \<open>if not X: raise ValueError(...)\<close>\<close>
  "require getenv name =
     (case getenv (str_lit name) of
        None \<Rightarrow> Inl (not_found name)
      | Some s \<Rightarrow> if falsy (Some s) then Inl (not_found name) else Inr s)"

definition startup :: "(pystr \<Rightarrow> pystr option) \<Rightarrow> exn + config" where
  \<comment> \<open>the module body up to the creation of the model object; \<open>getenv\<close> is \<open>os.getenv\<close>
      after \<open>load_dotenv()\<close>.  The four reads have no effect, so each is placed with its
      check; the checks keep the order of the source.  \<open>Inl\<close>: the import raises, so no
      route is registered and nothing is served.\<close>
  "startup getenv =
     (case require getenv ''GEMINI_API_KEY'' of Inl e \<Rightarrow> Inl e | Inr key \<Rightarrow>
     (case require getenv ''INPUT_LANG'' of Inl e \<Rightarrow> Inl e | Inr inp \<Rightarrow>
     (case require getenv ''OUTPUT_LANG'' of Inl e \<Rightarrow> Inl e | Inr out \<Rightarrow>
     (case require getenv ''LLM_MODEL'' of Inl e \<Rightarrow> Inl e | Inr mdl \<Rightarrow>
      Inr \<lparr>GEMINI_API_KEY = key, INPUT_LANG = inp, OUTPUT_LANG = out, LLM_MODEL = mdl\<rparr>))))"

definition required_names :: "pystr list" where
  "required_names = [str_lit ''GEMINI_API_KEY'', str_lit ''INPUT_LANG'',
                     str_lit ''OUTPUT_LANG'', str_lit ''LLM_MODEL'']"

section \<open>The outside world of a request\<close>

text \<open>
  The oracle, the document reader, the JSON parser and the validation of the typed
  responses are libraries; they are parameters of the model.
  \<^item> \<open>generate_content w prompt\<close> is \<open>model.generate_content(prompt).text\<close>: the reply
    text, or the exception raised by the call or by reading \<open>.text\<close>;
  \<^item> \<open>Document w bytes\<close> is \<open>[p.text for p in Document(io.BytesIO(bytes)).paragraphs]\<close>;
  \<^item> \<open>json_loads w s\<close> is \<open>json.loads(s)\<close>;
  \<^item> \<open>validation_str w v\<close> is the text of the validation error raised when
    \<open>NERResponse(entities=v)\<close> is given a value \<open>v\<close> that is not a \<open>dict\<close>;
  \<^item> \<open>serialises w kvs\<close> says whether the serialiser of the web framework accepts the
    numbers and the nesting of the \<open>dict\<close> \<open>kvs\<close> (what it does with a float that is
    not finite, or with a deeply nested value, is the library's).
\<close>

record world =
  generate_content :: "pystr \<Rightarrow> exn + pystr"
  Document :: "pybytes \<Rightarrow> exn + pystr list"
  json_loads :: "pystr \<Rightarrow> exn + json"
  validation_str :: "json \<Rightarrow> pystr"
  serialises :: "(pystr \<times> json) list \<Rightarrow> bool"

text \<open>An \<open>UploadFile\<close>: its declared content type and what \<open>await file.read()\<close> gives.\<close>

record upload =
  content_type :: "pystr option"
  read_result :: "exn + pybytes"

datatype event = GenerateContent pystr | FileRead

datatype response =
    WelcomeResponse pystr
  | TransliterationResponse pystr pystr
  | NERResponse "(pystr \<times> json) list"
  | ErrorResponse pystr

text \<open>
  A handler body is an action: from the events so far to a returned value or a raised
  exception, and the events after it.
\<close>

type_synonym 'a action = "event list \<Rightarrow> (exn + 'a) \<times> event list"

definition py_return :: "'a \<Rightarrow> 'a action" where
  "py_return x = (\<lambda>t. (Inr x, t))"

definition py_raise :: "exn \<Rightarrow> 'a action" where
  "py_raise e = (\<lambda>t. (Inl e, t))"

definition py_bind :: "'a action \<Rightarrow> ('a \<Rightarrow> 'b action) \<Rightarrow> 'b action" where
  \<comment> \<open>one statement after another: an exception skips the rest\<close>
  "py_bind m f = (\<lambda>t. case m t of (Inl e, t') \<Rightarrow> (Inl e, t') | (Inr x, t') \<Rightarrow> f x t')"

definition py_pure :: "exn + 'a \<Rightarrow> 'a action" where
  \<comment> \<open>a library call that leaves no event\<close>
  "py_pure r = (\<lambda>t. (r, t))"

definition py_try :: "'a action \<Rightarrow> (exn \<Rightarrow> bool) \<Rightarrow> (exn \<Rightarrow> 'a action) \<Rightarrow> 'a action" where
  \<comment> \<open>\<open>try: m except C as e: h\<close>, where \<open>catches e\<close> is \<open>isinstance(e, C)\<close>\<close>
  "py_try m catches h =
     (\<lambda>t. case m t of
             (Inl e, t') \<Rightarrow> if catches e then h e t' else (Inl e, t')
           | (Inr x, t') \<Rightarrow> (Inr x, t'))"

definition call_generate_content :: "world \<Rightarrow> pystr \<Rightarrow> pystr action" where
  "call_generate_content w prompt = (\<lambda>t. (generate_content w prompt, t @ [GenerateContent prompt]))"

definition await_read :: "upload \<Rightarrow> pybytes action" where
  "await_read file = (\<lambda>t. (read_result file, t @ [FileRead]))"

text \<open>
  What the web framework does with the outcome of a handler.  A returned model is
  serialised to JSON, encoded as UTF-8 and sent with status 200; when that fails the
  answer is an internal server error.  The encoding fails for a string that holds a
  surrogate code point (U+D800 to U+DFFF), which \<open>json.loads\<close> produces from an escape
  such as \<open>\ud800\<close>.  A raised \<open>HTTPException\<close> is answered with its own status code, a
  \<open>RequestValidationError\<close> with status 422, any other exception with an internal
  server error.
\<close>

definition encodable :: "pystr \<Rightarrow> bool" where
  \<comment> \<open>\<open>s.encode("utf-8")\<close> succeeds\<close>
  "encodable s = list_all (\<lambda>c. c < 55296 \<or> 57343 < c) s"

fun json_encodable :: "json \<Rightarrow> bool" where
  \<comment> \<open>every string in the value, keys included, is encodable\<close>
  "json_encodable (JString s) = encodable s"
| "json_encodable (JArray vs) = list_all json_encodable vs"
| "json_encodable (JObject kvs) =
     list_all (\<lambda>kv. encodable (fst kv) \<and> json_encodable (snd kv)) kvs"
| "json_encodable v = True"

definition renders :: "world \<Rightarrow> response \<Rightarrow> bool" where
  "renders w r =
     (case r of
        WelcomeResponse m \<Rightarrow> encodable m
      | TransliterationResponse a b \<Rightarrow> encodable a \<and> encodable b
      | NERResponse kvs \<Rightarrow> json_encodable (JObject kvs) \<and> serialises w kvs
      | ErrorResponse m \<Rightarrow> encodable m)"

fun http_status :: "world \<Rightarrow> exn + response \<Rightarrow> nat" where
  "http_status w (Inr r) = (if renders w r then 200 else 500)"
| "http_status w (Inl (HTTPException sc detail)) = sc"
| "http_status w (Inl (RequestValidationError m)) = 422"
| "http_status w (Inl e) = 500"

section \<open>The handlers\<close>

definition welcome_root :: "response action" where
  \<comment> \<open>the handler \<open>welcome\<close> of \<open>POST /\<close>; code point 96 is the backquote\<close>
  "welcome_root = py_return (WelcomeResponse
     (str_lit ''Welcome to the AI Transliteration and NER API! Please go to '' @ [96]
      @ str_lit ''/docs'' @ [96] @ str_lit '' for the API documentation.''))"

definition handle_Exception :: "response action \<Rightarrow> response action" where
  \<comment> \<open>\<open>try: body except Exception as e: return ErrorResponse(error=str(e))\<close>\<close>
  "handle_Exception body = py_try body is_Exception (\<lambda>e. py_return (ErrorResponse (py_str e)))"

subsection \<open>\<open>POST /transliterate/text\<close>\<close>

definition transliterate_prompt :: "config \<Rightarrow> pystr \<Rightarrow> pystr" where
  "transliterate_prompt cfg text =
     str_lit ''Transliterate the following text from '' @ INPUT_LANG cfg @ str_lit '' to ''
     @ OUTPUT_LANG cfg @ str_lit '' script: '' @ quoted text
     @ str_lit ''. Please respond with only transliterated '' @ OUTPUT_LANG cfg
     @ str_lit '' script. Do not provide any extra text and dont translate the text''"

definition transliterate_text_body :: "world \<Rightarrow> config \<Rightarrow> pystr \<Rightarrow> response action" where
  "transliterate_text_body w cfg text =
     (if text = [] then py_raise (HTTPException 400 (str_lit ''Please provide text input.''))
      else py_bind (call_generate_content w (transliterate_prompt cfg text)) (\<lambda>reply.
           py_return (TransliterationResponse text (py_strip reply))))"

definition transliterate_text :: "world \<Rightarrow> config \<Rightarrow> pystr \<Rightarrow> response action" where
  "transliterate_text w cfg text = handle_Exception (transliterate_text_body w cfg text)"

text \<open>
  The route declares \<open>text: str = Form(...)\<close>, a required form field.  The framework
  reads the form before it calls the handler: a required form field that is absent, or
  whose value is the empty string, counts as missing, and the framework raises
  \<open>RequestValidationError\<close> without calling the handler.  \<open>form_text\<close> is the value of
  the field in the request, if any.
\<close>

definition field_required :: exn where
  "field_required = RequestValidationError (str_lit ''Field required'')"

definition post_transliterate_text :: "world \<Rightarrow> config \<Rightarrow> pystr option \<Rightarrow> response action" where
  "post_transliterate_text w cfg form_text =
     (case form_text of
        None \<Rightarrow> py_raise field_required
      | Some text \<Rightarrow>
          if text = [] then py_raise field_required else transliterate_text w cfg text)"

subsection \<open>\<open>POST /transliterate/file\<close>\<close>

definition docx_mime :: pystr where
  "docx_mime = str_lit ''application/vnd.openxmlformats-officedocument.wordprocessingml.document''"

definition invalid_file_type :: exn where
  "invalid_file_type = HTTPException 400 (str_lit ''Invalid file type. Please upload a .docx file.'')"

text \<open>
  \<open>if not file\<close> never holds: an \<open>UploadFile\<close> defines neither \<open>__bool__\<close> nor
  \<open>__len__\<close>, so the object is true.  The prompt of line 97 interpolates the name
  \<open>text\<close>, which is bound neither in this function nor in the module (the extracted text is
  \<open>input_text\<close>), so building the prompt raises \<open>NameError\<close>.
\<close>

definition transliterate_file_body :: "world \<Rightarrow> config \<Rightarrow> upload \<Rightarrow> response action" where
  "transliterate_file_body w cfg file =
     (if content_type file \<noteq> Some docx_mime then py_raise invalid_file_type
      else py_bind (await_read file) (\<lambda>contents.
           py_bind (py_pure (Document w contents)) (\<lambda>paragraphs.
           let input_text = py_join newline paragraphs in
           py_bind (py_raise (NameError (str_lit ''text''))) (\<lambda>prompt.
           py_bind (call_generate_content w prompt) (\<lambda>reply.
           py_return (TransliterationResponse input_text (py_strip reply)))))))"

definition transliterate_file :: "world \<Rightarrow> config \<Rightarrow> upload \<Rightarrow> response action" where
  "transliterate_file w cfg file = handle_Exception (transliterate_file_body w cfg file)"

subsection \<open>\<open>POST /ner\<close>\<close>

definition indent :: pystr where
  \<comment> \<open>the twelve spaces that start each line of the prompt literal\<close>
  "indent = replicate 12 32"

definition ner_prompt :: "config \<Rightarrow> pystr \<Rightarrow> pystr" where
  "ner_prompt cfg input_text =
     newline
     @ indent @ str_lit ''Extract named entities (people, organizations, locations, dates, legal terms, legal abbreviations, act names, institute names, law journal names, medical terms, proper nouns, foreign language terms like Latin words, book names, and vehicle numbers) from the following text. '' @ newline
     @ indent @ str_lit ''For each extracted entity, transliterate it into '' @ OUTPUT_LANG cfg @ str_lit '' script. '' @ newline
     @ indent @ str_lit ''Return a JSON object where each named entity is a key, and its corresponding transliterated '' @ OUTPUT_LANG cfg @ str_lit '' value is the value.'' @ newline
     @ newline
     @ indent @ str_lit ''Text: '' @ quoted input_text @ newline
     @ indent @ str_lit ''Please return only the JSON object.'' @ newline
     @ indent"

text \<open>
  \<open>re.search(r"```(?:json)?(.*?)```", s, re.DOTALL)\<close>, as the backtracking matcher
  runs it.  Code point 96 is the backquote.  With \<open>re.DOTALL\<close> the dot matches every
  character, the newline included.
\<close>

definition fence :: pystr where
  "fence = [96, 96, 96]"

definition json_tag :: pystr where
  "json_tag = str_lit ''json''"

fun lazy_group :: "pystr \<Rightarrow> pystr option" where
  \<comment> \<open>\<open>(.*?)```\<close> at the start of \<open>s\<close>: the shortest text that is followed by a fence\<close>
  "lazy_group [] = None"
| "lazy_group (c # cs) =
     (if prefix fence (c # cs) then Some []
      else (case lazy_group cs of None \<Rightarrow> None | Some g \<Rightarrow> Some (c # g)))"

definition match_here :: "pystr \<Rightarrow> pystr option" where
  \<comment> \<open>the whole pattern at the start of \<open>s\<close>, giving group 1: the optional tag is tried
      first with \<open>json\<close> consumed, then without\<close>
  "match_here s =
     (if prefix fence s then
        (let r = drop 3 s in
         (case (if prefix json_tag r then lazy_group (drop 4 r) else None) of
            Some g \<Rightarrow> Some g
          | None \<Rightarrow> lazy_group r))
      else None)"

fun re_search :: "pystr \<Rightarrow> pystr option" where
  \<comment> \<open>the match at the leftmost start position, if any\<close>
  "re_search [] = match_here []"
| "re_search (c # cs) =
     (case match_here (c # cs) of Some g \<Rightarrow> Some g | None \<Rightarrow> re_search cs)"

fun has_fence :: "pystr \<Rightarrow> bool" where
  \<comment> \<open>three backquotes in a row occur somewhere in \<open>s\<close>; used to state where the first
      fence of a text is\<close>
  "has_fence [] = False"
| "has_fence (c # cs) = (prefix fence (c # cs) \<or> has_fence cs)"

definition could_not_extract :: "pystr \<Rightarrow> exn" where
  "could_not_extract ner_text =
     HTTPException 400 (str_lit ''Could not extract json for NER entities : '' @ ner_text)"

definition parse_entities :: "world \<Rightarrow> pystr \<Rightarrow> json action" where
  \<comment> \<open>lines 139 to 151\<close>
  "parse_entities w ner_text =
     py_try (py_pure (json_loads w ner_text)) is_JSONDecodeError (\<lambda>e.
       (case re_search ner_text of
          Some group1 \<Rightarrow>
            py_try (py_pure (json_loads w (py_strip group1))) is_JSONDecodeError
              (\<lambda>e'. py_raise (could_not_extract ner_text))
        | None \<Rightarrow> py_raise (could_not_extract ner_text)))"

definition new_NERResponse :: "world \<Rightarrow> json \<Rightarrow> exn + response" where
  \<comment> \<open>\<open>NERResponse(entities=v)\<close> with the field \<open>entities: dict\<close>: of the values that
      \<open>json.loads\<close> gives, the validation accepts a \<open>dict\<close> only\<close>
  "new_NERResponse w v =
     (case v of
        JObject kvs \<Rightarrow> Inr (NERResponse kvs)
      | _ \<Rightarrow> Inl (ValidationError (validation_str w v)))"

definition extract_and_transliterate_ner_body ::
    "world \<Rightarrow> config \<Rightarrow> upload \<Rightarrow> response action" where
  "extract_and_transliterate_ner_body w cfg file =
     (if content_type file \<noteq> Some docx_mime then py_raise invalid_file_type
      else py_bind (await_read file) (\<lambda>contents.
           py_bind (py_pure (Document w contents)) (\<lambda>paragraphs.
           let input_text = py_join newline paragraphs in
           py_bind (call_generate_content w (ner_prompt cfg input_text)) (\<lambda>reply.
           let ner_text = py_strip reply in
           py_bind (parse_entities w ner_text) (\<lambda>entities.
           py_pure (new_NERResponse w entities))))))"

definition extract_and_transliterate_ner :: "world \<Rightarrow> config \<Rightarrow> upload \<Rightarrow> response action" where
  "extract_and_transliterate_ner w cfg file =
     handle_Exception (extract_and_transliterate_ner_body w cfg file)"

section \<open>Sample values\<close>

text \<open>
  Concrete values at which the theorems below are instantiated: a configuration, an
  upload, and a world whose oracle answers every prompt with a fixed reply.
  \<open>sample_loads\<close> agrees with \<open>json.loads\<close> on the texts it is applied to below:
  the documents \<open>{}\<close>, \<open>[]\<close> and \<open>john_json\<close>, and four texts that are not JSON
  (\<open>x\<close>, \<open>cannot_process\<close>, \<open>fenced_john\<close> and the text with two fenced blocks),
  for each of which \<open>json.loads\<close> raises the error \<open>expecting_value\<close>.
\<close>

definition sample_config :: config where
  "sample_config = \<lparr>GEMINI_API_KEY = str_lit ''key'', INPUT_LANG = str_lit ''English'',
                     OUTPUT_LANG = str_lit ''Assamese'', LLM_MODEL = str_lit ''gemini-1.5-pro''\<rparr>"

definition sample_getenv :: "pystr \<Rightarrow> pystr option" where
  "sample_getenv name =
     (if name = str_lit ''GEMINI_API_KEY'' then Some (str_lit ''key'')
      else if name = str_lit ''INPUT_LANG'' then Some (str_lit ''English'')
      else if name = str_lit ''OUTPUT_LANG'' then Some []
      else None)"

definition john_json :: pystr where
  \<comment> \<open>\<open>{"John": "XY"}\<close> with the two Bengali letters U+099C and U+09A8 for \<open>XY\<close>\<close>
  "john_json = [123, 34] @ str_lit ''John'' @ [34, 58, 32, 34, 2460, 2472, 34, 125]"

definition expecting_value :: exn where
  "expecting_value = JSONDecodeError (str_lit ''Expecting value: line 1 column 1 (char 0)'')"

definition sample_loads :: "pystr \<Rightarrow> exn + json" where
  "sample_loads s =
     (if s = str_lit ''{}'' then Inr (JObject [])
      else if s = str_lit ''[]'' then Inr (JArray [])
      else if s = john_json then Inr (JObject [(str_lit ''John'', JString [2460, 2472])])
      else Inl expecting_value)"

definition sample_world :: "pystr \<Rightarrow> world" where
  "sample_world reply =
     \<lparr>generate_content = (\<lambda>prompt. Inr reply),
      Document = (\<lambda>bytes. Inr [str_lit ''Hello'', str_lit ''world'']),
      json_loads = sample_loads,
      validation_str = (\<lambda>v. str_lit ''Input should be a valid dictionary''),
      serialises = (\<lambda>kvs. True)\<rparr>"

definition sample_upload :: upload where
  "sample_upload = \<lparr>content_type = Some docx_mime, read_result = Inr [80, 75, 3, 4]\<rparr>"

definition text_upload :: upload where
  "text_upload = \<lparr>content_type = Some (str_lit ''text/plain''), read_result = Inr [104, 105]\<rparr>"

definition broken_upload :: "exn \<Rightarrow> upload" where
  \<comment> \<open>an upload with the document content type whose read raises \<open>e\<close>\<close>
  "broken_upload e = \<lparr>content_type = Some docx_mime, read_result = Inl e\<rparr>"

definition failing_world :: "exn \<Rightarrow> world" where
  \<comment> \<open>the sample world with an oracle whose call raises \<open>e\<close>\<close>
  "failing_world e = (sample_world [])\<lparr>generate_content := (\<lambda>prompt. Inl e)\<rparr>"

definition fenced_john :: pystr where
  \<comment> \<open>the reply of the scenario: the document of \<open>john_json\<close> in a fenced block with tag\<close>
  "fenced_john = fence @ json_tag @ newline @ john_json @ newline @ fence"

definition cannot_process :: pystr where
  "cannot_process = str_lit ''I cannot process this.''"



section \<open>Auxiliary facts\<close>

lemma str_of_nat_400: "str_of_nat 400 = str_lit ''400''"
  by (simp add: str_of_nat.simps str_lit_def)

lemma prefix_fence_padding:
  "prefix fence (c # g @ fence @ rest) \<longleftrightarrow> prefix fence (c # g @ [96, 96])"
proof (cases g)
  case Nil
  then show ?thesis by (simp add: fence_def)
next
  case (Cons a g')
  then show ?thesis by (cases g') (simp_all add: fence_def)
qed

lemma lazy_group_first_fence:
  "\<not> has_fence (g @ [96, 96]) \<Longrightarrow> lazy_group (g @ fence @ rest) = Some g"
proof (induction g)
  case Nil
  show ?case by (simp add: fence_def)
next
  case (Cons c g)
  from Cons.prems have np: "\<not> prefix fence (c # g @ [96, 96])" and nh: "\<not> has_fence (g @ [96, 96])"
    by simp_all
  from np have "\<not> prefix fence (c # g @ fence @ rest)"
    by (simp add: prefix_fence_padding del: append.simps)
  with Cons.IH [OF nh] show ?case by simp
qed

lemma match_here_not_fence: "\<not> prefix fence s \<Longrightarrow> match_here s = None"
  by (simp add: match_here_def)

lemma re_search_skip:
  "\<not> has_fence (pre @ [96, 96]) \<Longrightarrow> re_search (pre @ fence @ s) = re_search (fence @ s)"
proof (induction pre)
  case Nil
  show ?case by simp
next
  case (Cons c pre)
  from Cons.prems have np: "\<not> prefix fence (c # pre @ [96, 96])" and nh: "\<not> has_fence (pre @ [96, 96])"
    by simp_all
  from np have "\<not> prefix fence (c # pre @ fence @ s)"
    by (simp add: prefix_fence_padding del: append.simps)
  then have "match_here (c # pre @ fence @ s) = None"
    by (rule match_here_not_fence)
  with Cons.IH [OF nh] show ?case by simp
qed

lemma json_tag_not_across_fence:
  assumes "\<not> prefix json_tag g"
  shows "\<not> prefix json_tag (g @ fence @ rest)"
proof -
  consider "g = []" | a where "g = [a]" | a b where "g = [a, b]" | a b c where "g = [a, b, c]"
    | a b c d g' where "g = a # b # c # d # g'"
    by (metis list.exhaust)
  then show ?thesis
    using assms by cases (simp_all add: json_tag_def str_lit_def fence_def)
qed

lemma match_here_block:
  assumes "\<not> has_fence (g @ [96, 96])"
    and "tag = [] \<and> \<not> prefix json_tag g \<or> tag = json_tag"
  shows "match_here (fence @ tag @ g @ fence @ rest) = Some g"
proof -
  have lg: "lazy_group (g @ fence @ rest) = Some g"
    using assms(1) by (rule lazy_group_first_fence)
  from assms(2) show ?thesis
  proof
    assume a: "tag = [] \<and> \<not> prefix json_tag g"
    then have "\<not> prefix json_tag (g @ fence @ rest)"
      by (simp add: json_tag_not_across_fence)
    with a lg show ?thesis
      by (simp add: match_here_def fence_def)
  next
    assume "tag = json_tag"
    with lg show ?thesis
      by (simp add: match_here_def fence_def json_tag_def str_lit_def)
  qed
qed

lemma re_search_first_block:
  assumes "\<not> has_fence (pre @ [96, 96])" and "\<not> has_fence (g @ [96, 96])"
    and "tag = [] \<and> \<not> prefix json_tag g \<or> tag = json_tag"
  shows "re_search (pre @ fence @ tag @ g @ fence @ rest) = Some g"
proof -
  have "re_search (pre @ fence @ tag @ g @ fence @ rest) = re_search (fence @ tag @ g @ fence @ rest)"
    using assms(1) by (rule re_search_skip)
  also have "\<dots> = Some g"
    using match_here_block [OF assms(2,3), of rest] by (simp add: fence_def)
  finally show ?thesis .
qed

lemmas action_defs = py_return_def py_raise_def py_bind_def py_pure_def py_try_def
  call_generate_content_def await_read_def handle_Exception_def

section \<open>Status of an answer\<close>

lemma of_char_less_256: "(of_char c :: nat) < 256"
proof -
  have "(of_char c :: nat) mod 256 < 256"
    by simp
  then show ?thesis
    by (simp only: of_char_mod_256)
qed

lemma encodable_str_lit: "encodable (str_lit s)"
proof -
  have "c < 55296" if "c \<in> set (str_lit s)" for c
  proof -
    from that obtain d where "c = of_char d"
      by (auto simp: str_lit_def)
    moreover have "(of_char d :: nat) < 256"
      by (rule of_char_less_256)
    ultimately show ?thesis
      by linarith
  qed
  then show ?thesis
    by (simp add: encodable_def list_all_iff)
qed

lemma encodable_append: "encodable (a @ b) \<longleftrightarrow> encodable a \<and> encodable b"
  by (simp add: encodable_def)

lemma encodable_str_of_nat: "encodable (str_of_nat n)"
proof (induction n rule: str_of_nat.induct)
  case (1 n)
  show ?case
  proof (cases "n < 10")
    case True
    then have "48 + n < 55296"
      by linarith
    with True show ?thesis
      by (simp add: str_of_nat.simps [of n] encodable_def)
  next
    case False
    have "n mod 10 < 10"
      by simp
    then have "48 + n mod 10 < 55296"
      by linarith
    then have "encodable [48 + n mod 10]"
      by (simp add: encodable_def)
    with False 1 show ?thesis
      by (simp add: str_of_nat.simps [of n] encodable_append)
  qed
qed

lemma renders_ErrorResponse: "renders w (ErrorResponse m) \<longleftrightarrow> encodable m"
  by (simp add: renders_def)

lemma status_ErrorResponse:
  "http_status w (Inr (ErrorResponse m)) = (if encodable m then 200 else 500)"
  by (simp add: renders_ErrorResponse)

section \<open>Start of the process\<close>

lemma require_falsy:
  "getenv (str_lit name) = None \<or> getenv (str_lit name) = Some [] \<Longrightarrow>
   require getenv name = Inl (not_found name)"
  by (auto simp: require_def falsy_def)

lemma require_present:
  "getenv (str_lit name) = Some s \<Longrightarrow> s \<noteq> [] \<Longrightarrow> require getenv name = Inr s"
  by (simp add: require_def falsy_def)

lemma startup_succeeds:
  assumes "getenv (str_lit ''GEMINI_API_KEY'') = Some key" "key \<noteq> []"
    and "getenv (str_lit ''INPUT_LANG'') = Some inp" "inp \<noteq> []"
    and "getenv (str_lit ''OUTPUT_LANG'') = Some out" "out \<noteq> []"
    and "getenv (str_lit ''LLM_MODEL'') = Some mdl" "mdl \<noteq> []"
  shows "startup getenv =
         Inr \<lparr>GEMINI_API_KEY = key, INPUT_LANG = inp, OUTPUT_LANG = out, LLM_MODEL = mdl\<rparr>"
  using assms by (simp add: startup_def require_present)

text \<open>
  Claim C7.  When one of the four required names (\<open>GEMINI_API_KEY\<close>, \<open>INPUT_LANG\<close>,
  \<open>OUTPUT_LANG\<close>, \<open>LLM_MODEL\<close>) is absent from the environment or bound to the
  empty string, the module body raises \<open>ValueError\<close>: the start of the process gives
  no configuration, so no request is ever handled.
\<close>

theorem startup_requires_all_four:
  assumes "name \<in> set required_names"
    and "getenv name = None \<or> getenv name = Some []"
  shows "\<exists>m. startup getenv = Inl (ValueError m)"
proof -
  from assms(1) consider "name = str_lit ''GEMINI_API_KEY''" | "name = str_lit ''INPUT_LANG''"
    | "name = str_lit ''OUTPUT_LANG''" | "name = str_lit ''LLM_MODEL''"
    by (auto simp: required_names_def)
  then show ?thesis
  proof cases
    case 1
    with assms(2) have "require getenv ''GEMINI_API_KEY'' = Inl (not_found ''GEMINI_API_KEY'')"
      by (simp add: require_falsy)
    then show ?thesis by (simp add: startup_def not_found_def)
  next
    case 2
    with assms(2) have "require getenv ''INPUT_LANG'' = Inl (not_found ''INPUT_LANG'')"
      by (simp add: require_falsy)
    then show ?thesis
      by (cases "require getenv ''GEMINI_API_KEY''")
         (auto simp: startup_def not_found_def require_def split: option.splits if_splits)
  next
    case 3
    with assms(2) have "require getenv ''OUTPUT_LANG'' = Inl (not_found ''OUTPUT_LANG'')"
      by (simp add: require_falsy)
    then show ?thesis
      by (cases "require getenv ''GEMINI_API_KEY''"; cases "require getenv ''INPUT_LANG''")
         (auto simp: startup_def not_found_def require_def split: option.splits if_splits)
  next
    case 4
    with assms(2) have "require getenv ''LLM_MODEL'' = Inl (not_found ''LLM_MODEL'')"
      by (simp add: require_falsy)
    then show ?thesis
      by (cases "require getenv ''GEMINI_API_KEY''"; cases "require getenv ''INPUT_LANG''";
          cases "require getenv ''OUTPUT_LANG''")
         (auto simp: startup_def not_found_def require_def split: option.splits if_splits)
  qed
qed

theorem startup_requires_all_four_witness:
  "str_lit ''OUTPUT_LANG'' \<in> set required_names
   \<and> sample_getenv (str_lit ''OUTPUT_LANG'') = Some []
   \<and> (\<exists>m. startup sample_getenv = Inl (ValueError m))"
proof -
  have a: "str_lit ''OUTPUT_LANG'' \<in> set required_names"
    by (simp add: required_names_def)
  have b: "sample_getenv (str_lit ''OUTPUT_LANG'') = None
           \<or> sample_getenv (str_lit ''OUTPUT_LANG'') = Some []"
    by (simp add: sample_getenv_def str_lit_def)
  have c: "sample_getenv (str_lit ''OUTPUT_LANG'') = Some []"
    by (simp add: sample_getenv_def str_lit_def)
  from a c startup_requires_all_four [of "str_lit ''OUTPUT_LANG''" sample_getenv, OF a b] show ?thesis by simp
qed

section \<open>\<open>POST /transliterate/text\<close>\<close>

text \<open>
  Claim C5.  For a non-empty text for which the oracle call succeeds, the handler returns
  a \<open>TransliterationResponse\<close> whose first field is the text as given and whose
  second field is the reply of the oracle with the white space at both ends removed;
  the oracle is called once, with the prompt built from the text.
\<close>

theorem transliterate_text_success:
  assumes "text \<noteq> []"
    and "generate_content w (transliterate_prompt cfg text) = Inr reply"
  shows "transliterate_text w cfg text t =
         (Inr (TransliterationResponse text (py_strip reply)),
          t @ [GenerateContent (transliterate_prompt cfg text)])"
  using assms
  by (simp add: transliterate_text_def transliterate_text_body_def action_defs)

lemma strip_sample: "py_strip ([32, 10] @ str_lit ''ab c'' @ [9, 160, 32]) = str_lit ''ab c''"
  by (simp add: py_strip_def py_lstrip_def py_rstrip_def py_isspace_def str_lit_def)

theorem transliterate_text_success_witness:
  "str_lit ''Hello world'' \<noteq> []
   \<and> generate_content (sample_world ([32, 10] @ str_lit ''ab c'' @ [9, 160, 32]))
        (transliterate_prompt sample_config (str_lit ''Hello world''))
       = Inr ([32, 10] @ str_lit ''ab c'' @ [9, 160, 32])
   \<and> transliterate_text (sample_world ([32, 10] @ str_lit ''ab c'' @ [9, 160, 32]))
        sample_config (str_lit ''Hello world'') []
       = (Inr (TransliterationResponse (str_lit ''Hello world'') (str_lit ''ab c'')),
          [GenerateContent (transliterate_prompt sample_config (str_lit ''Hello world''))])"
proof -
  have a: "str_lit ''Hello world'' \<noteq> []"
    by (simp add: str_lit_def)
  have b: "generate_content (sample_world ([32, 10] @ str_lit ''ab c'' @ [9, 160, 32]))
        (transliterate_prompt sample_config (str_lit ''Hello world''))
       = Inr ([32, 10] @ str_lit ''ab c'' @ [9, 160, 32])"
    by (simp add: sample_world_def)
  from a b transliterate_text_success [OF a b, of "[]"] show ?thesis
    by (simp only: strip_sample append_Nil simp_thms)
qed


lemma post_transliterate_text_nonempty:
  "text \<noteq> [] \<Longrightarrow> post_transliterate_text w cfg (Some text) = transliterate_text w cfg text"
  by (simp add: post_transliterate_text_def)

lemma post_transliterate_text_absent:
  "post_transliterate_text w cfg None t = (Inl field_required, t)"
  by (simp add: post_transliterate_text_def py_raise_def)


section \<open>\<open>POST /transliterate/file\<close>\<close>

lemma invalid_file_type_str:
  "py_str invalid_file_type = str_lit ''400: Invalid file type. Please upload a .docx file.''"
  by (simp add: invalid_file_type_def str_of_nat_400 str_lit_def)

lemma invalid_file_type_caught: "is_Exception invalid_file_type"
  by (simp add: invalid_file_type_def)

lemma transliterate_file_never_succeeds:
  "fst (transliterate_file w cfg file t) \<noteq> Inr (TransliterationResponse a b)"
  by (cases "read_result file"; cases "Document w (projr (read_result file))")
     (auto simp: transliterate_file_def transliterate_file_body_def action_defs Let_def
           split: sum.splits prod.splits)

lemma transliterate_file_never_calls_oracle:
  "snd (transliterate_file w cfg file t) = t \<or> snd (transliterate_file w cfg file t) = t @ [FileRead]"
  by (cases "read_result file"; cases "Document w (projr (read_result file))")
     (auto simp: transliterate_file_def transliterate_file_body_def action_defs Let_def
           split: sum.splits prod.splits)

text \<open>
  Claim C2.  For an upload with the document content type whose body is read and parsed
  into paragraphs, the handler does not return the extracted text and a transliteration:
  building the prompt raises \<open>NameError\<close> for the unbound name \<open>text\<close>, the oracle is
  not called (the only event is the read of the body), and the handler returns an
  \<open>ErrorResponse\<close> with the text \<open>name 'text' is not defined\<close>.
\<close>

theorem transliterate_file_valid_docx_gives_NameError:
  assumes "content_type file = Some docx_mime"
    and "read_result file = Inr contents"
    and "Document w contents = Inr paragraphs"
  shows "transliterate_file w cfg file t =
         (Inr (ErrorResponse (str_lit ''name '' @ quoted (str_lit ''text'') @ str_lit '' is not defined'')),
          t @ [FileRead])"
  using assms
  by (simp add: transliterate_file_def transliterate_file_body_def action_defs)

theorem transliterate_file_valid_docx_gives_NameError_witness:
  "content_type sample_upload = Some docx_mime
   \<and> read_result sample_upload = Inr [80, 75, 3, 4]
   \<and> Document (sample_world (str_lit ''abc'')) [80, 75, 3, 4] = Inr [str_lit ''Hello'', str_lit ''world'']
   \<and> transliterate_file (sample_world (str_lit ''abc'')) sample_config sample_upload [] =
         (Inr (ErrorResponse (str_lit ''name '' @ quoted (str_lit ''text'') @ str_lit '' is not defined'')),
          [FileRead])"
proof -
  have a: "content_type sample_upload = Some docx_mime"
    by (simp add: sample_upload_def)
  have b: "read_result sample_upload = Inr [80, 75, 3, 4]"
    by (simp add: sample_upload_def)
  have c: "Document (sample_world (str_lit ''abc'')) [80, 75, 3, 4] = Inr [str_lit ''Hello'', str_lit ''world'']"
    by (simp add: sample_world_def)
  from a b c transliterate_file_valid_docx_gives_NameError [OF a b c, of sample_config "[]"]
  show ?thesis by simp
qed

text \<open>
  Claim C4.  For an upload whose content type is not the document type, both file
  handlers leave the body unread (the trace is unchanged), but the \<open>HTTPException\<close>
  with status 400 that they raise is caught by their own \<open>except Exception\<close>: each
  returns an \<open>ErrorResponse\<close> with the text
  \<open>400: Invalid file type. Please upload a .docx file.\<close>, sent with status 200 and not
  with a client-error status.
\<close>

theorem wrong_content_type_is_success_status:
  assumes "content_type file \<noteq> Some docx_mime"
  shows "transliterate_file w cfg file t =
           (Inr (ErrorResponse (str_lit ''400: Invalid file type. Please upload a .docx file.'')), t)
         \<and> extract_and_transliterate_ner w cfg file t =
           (Inr (ErrorResponse (str_lit ''400: Invalid file type. Please upload a .docx file.'')), t)
         \<and> http_status w (fst (transliterate_file w cfg file t)) = 200
         \<and> http_status w (fst (extract_and_transliterate_ner w cfg file t)) = 200"
  using assms
  by (simp add: transliterate_file_def transliterate_file_body_def
      extract_and_transliterate_ner_def extract_and_transliterate_ner_body_def
      action_defs invalid_file_type_str invalid_file_type_caught
      renders_ErrorResponse encodable_str_lit)

lemma text_upload_wrong_type: "content_type text_upload \<noteq> Some docx_mime"
  by (simp add: text_upload_def docx_mime_def str_lit_def)

theorem wrong_content_type_is_success_status_witness:
  "content_type text_upload \<noteq> Some docx_mime
   \<and> transliterate_file (sample_world []) sample_config text_upload [] =
           (Inr (ErrorResponse (str_lit ''400: Invalid file type. Please upload a .docx file.'')), [])
   \<and> extract_and_transliterate_ner (sample_world []) sample_config text_upload [] =
           (Inr (ErrorResponse (str_lit ''400: Invalid file type. Please upload a .docx file.'')), [])
   \<and> http_status (sample_world []) (fst (transliterate_file (sample_world []) sample_config text_upload [])) = 200
   \<and> http_status (sample_world []) (fst (extract_and_transliterate_ner (sample_world []) sample_config text_upload [])) = 200"
  using text_upload_wrong_type
    wrong_content_type_is_success_status [OF text_upload_wrong_type, of "sample_world []" sample_config "[]"]
  by (simp add: renders_ErrorResponse encodable_str_lit)

section \<open>The blanket handler\<close>

lemma handle_Exception_returns:
  "body t = (Inr r, t') \<Longrightarrow> handle_Exception body t = (Inr r, t')"
  by (simp add: handle_Exception_def py_try_def)

lemma handle_Exception_catches:
  "body t = (Inl e, t') \<Longrightarrow> is_Exception e \<Longrightarrow>
   handle_Exception body t = (Inr (ErrorResponse (py_str e)), t')"
  by (simp add: handle_Exception_def py_try_def py_return_def)

lemma handle_Exception_propagates:
  "body t = (Inl e, t') \<Longrightarrow> \<not> is_Exception e \<Longrightarrow> handle_Exception body t = (Inl e, t')"
  by (simp add: handle_Exception_def py_try_def)




lemma oracle_failure_text:
  "text \<noteq> [] \<Longrightarrow> generate_content w (transliterate_prompt cfg text) = Inl e \<Longrightarrow>
   transliterate_text_body w cfg text t =
     (Inl e, t @ [GenerateContent (transliterate_prompt cfg text)])"
  by (simp add: transliterate_text_body_def action_defs)

lemma read_failure:
  "content_type file = Some docx_mime \<Longrightarrow> read_result file = Inl e \<Longrightarrow>
   transliterate_file_body w cfg file t = (Inl e, t @ [FileRead])
   \<and> extract_and_transliterate_ner_body w cfg file t = (Inl e, t @ [FileRead])"
  by (simp add: transliterate_file_body_def extract_and_transliterate_ner_body_def action_defs)

lemma Document_failure:
  "content_type file = Some docx_mime \<Longrightarrow> read_result file = Inr contents \<Longrightarrow>
   Document w contents = Inl e \<Longrightarrow>
   transliterate_file_body w cfg file t = (Inl e, t @ [FileRead])
   \<and> extract_and_transliterate_ner_body w cfg file t = (Inl e, t @ [FileRead])"
  by (simp add: transliterate_file_body_def extract_and_transliterate_ner_body_def action_defs)

lemma oracle_failure_ner:
  "content_type file = Some docx_mime \<Longrightarrow> read_result file = Inr contents \<Longrightarrow>
   Document w contents = Inr paragraphs \<Longrightarrow>
   generate_content w (ner_prompt cfg (py_join newline paragraphs)) = Inl e \<Longrightarrow>
   extract_and_transliterate_ner_body w cfg file t =
     (Inl e, t @ [FileRead, GenerateContent (ner_prompt cfg (py_join newline paragraphs))])"
  by (simp add: extract_and_transliterate_ner_body_def action_defs)



text \<open>
  Claim C6 as stated fails for an exception that is not an instance of \<open>Exception\<close>:
  when the oracle call is interrupted by such an exception (here one whose \<open>str\<close> is
  empty, as for a cancelled task), the handler returns nothing and the exception leaves
  it.
\<close>

theorem uncaught_BaseException_counterexample:
  "transliterate_text_body (failing_world (BaseOnly [])) sample_config (str_lit ''Hello'') [] =
     (Inl (BaseOnly []), [GenerateContent (transliterate_prompt sample_config (str_lit ''Hello''))])
   \<and> transliterate_text (failing_world (BaseOnly [])) sample_config (str_lit ''Hello'') [] =
     (Inl (BaseOnly []), [GenerateContent (transliterate_prompt sample_config (str_lit ''Hello''))])"
proof -
  have ne: "str_lit ''Hello'' \<noteq> []"
    by (simp add: str_lit_def)
  have gc: "generate_content (failing_world (BaseOnly []))
              (transliterate_prompt sample_config (str_lit ''Hello'')) = Inl (BaseOnly [])"
    by (simp add: failing_world_def)
  have body: "transliterate_text_body (failing_world (BaseOnly [])) sample_config (str_lit ''Hello'') [] =
     (Inl (BaseOnly []), [GenerateContent (transliterate_prompt sample_config (str_lit ''Hello''))])"
    using oracle_failure_text [OF ne gc, of "[]"] by simp
  have "\<not> is_Exception (BaseOnly [])"
    by simp
  with body have "transliterate_text (failing_world (BaseOnly [])) sample_config (str_lit ''Hello'') [] =
     (Inl (BaseOnly []), [GenerateContent (transliterate_prompt sample_config (str_lit ''Hello''))])"
    unfolding transliterate_text_def by (rule handle_Exception_propagates)
  with body show ?thesis
    by simp
qed

text \<open>
  Claim C6, amended.  In each of the three handlers, an exception \<open>e\<close> raised anywhere
  in the body (by the oracle, the network, a library or the body itself) is caught if
  and only if it is an instance of \<open>Exception\<close>: then the handler returns an
  \<open>ErrorResponse\<close> whose text is \<open>str(e)\<close>; otherwise \<open>e\<close> leaves the handler.  In both
  cases the events up to the exception stay as they are.
\<close>

theorem handlers_catch_instances_of_Exception:
  "(transliterate_text_body w cfg text t = (Inl e, t') \<longrightarrow>
      transliterate_text w cfg text t =
        (if is_Exception e then (Inr (ErrorResponse (py_str e)), t') else (Inl e, t')))
   \<and> (transliterate_file_body w cfg file t = (Inl e, t') \<longrightarrow>
      transliterate_file w cfg file t =
        (if is_Exception e then (Inr (ErrorResponse (py_str e)), t') else (Inl e, t')))
   \<and> (extract_and_transliterate_ner_body w cfg file t = (Inl e, t') \<longrightarrow>
      extract_and_transliterate_ner w cfg file t =
        (if is_Exception e then (Inr (ErrorResponse (py_str e)), t') else (Inl e, t')))"
  by (simp add: transliterate_text_def transliterate_file_def extract_and_transliterate_ner_def
      handle_Exception_catches handle_Exception_propagates)

theorem handlers_catch_instances_of_Exception_witness:
  "transliterate_text_body (failing_world (LibraryError (str_lit ''503 Service Unavailable'')))
        sample_config (str_lit ''Hello'') []
      = (Inl (LibraryError (str_lit ''503 Service Unavailable'')),
         [GenerateContent (transliterate_prompt sample_config (str_lit ''Hello''))])
   \<and> transliterate_file_body (failing_world (LibraryError (str_lit ''503 Service Unavailable'')))
        sample_config (broken_upload (LibraryError (str_lit ''503 Service Unavailable''))) []
      = (Inl (LibraryError (str_lit ''503 Service Unavailable'')), [FileRead])
   \<and> extract_and_transliterate_ner_body (failing_world (LibraryError (str_lit ''503 Service Unavailable'')))
        sample_config (broken_upload (LibraryError (str_lit ''503 Service Unavailable''))) []
      = (Inl (LibraryError (str_lit ''503 Service Unavailable'')), [FileRead])
   \<and> transliterate_text (failing_world (LibraryError (str_lit ''503 Service Unavailable'')))
        sample_config (str_lit ''Hello'') []
      = (Inr (ErrorResponse (str_lit ''503 Service Unavailable'')),
         [GenerateContent (transliterate_prompt sample_config (str_lit ''Hello''))])
   \<and> transliterate_file (failing_world (LibraryError (str_lit ''503 Service Unavailable'')))
        sample_config (broken_upload (LibraryError (str_lit ''503 Service Unavailable''))) []
      = (Inr (ErrorResponse (str_lit ''503 Service Unavailable'')), [FileRead])
   \<and> extract_and_transliterate_ner (failing_world (LibraryError (str_lit ''503 Service Unavailable'')))
        sample_config (broken_upload (LibraryError (str_lit ''503 Service Unavailable''))) []
      = (Inr (ErrorResponse (str_lit ''503 Service Unavailable'')), [FileRead])"
proof -
  let ?e = "LibraryError (str_lit ''503 Service Unavailable'')"
  let ?t1 = "[GenerateContent (transliterate_prompt sample_config (str_lit ''Hello''))]"
  have ne: "str_lit ''Hello'' \<noteq> []"
    by (simp add: str_lit_def)
  have gc: "generate_content (failing_world ?e) (transliterate_prompt sample_config (str_lit ''Hello'')) = Inl ?e"
    by (simp add: failing_world_def)
  have a: "transliterate_text_body (failing_world ?e) sample_config (str_lit ''Hello'') [] = (Inl ?e, ?t1)"
    using oracle_failure_text [OF ne gc, of "[]"] by simp
  have ct: "content_type (broken_upload ?e) = Some docx_mime"
    by (simp add: broken_upload_def)
  have rd: "read_result (broken_upload ?e) = Inl ?e"
    by (simp add: broken_upload_def)
  have b: "transliterate_file_body (failing_world ?e) sample_config (broken_upload ?e) [] = (Inl ?e, [FileRead])"
    using read_failure [OF ct rd, of "failing_world ?e" sample_config "[]"] by simp
  have c: "extract_and_transliterate_ner_body (failing_world ?e) sample_config (broken_upload ?e) [] = (Inl ?e, [FileRead])"
    using read_failure [OF ct rd, of "failing_world ?e" sample_config "[]"] by simp
  have r1: "transliterate_text (failing_world ?e) sample_config (str_lit ''Hello'') [] =
      (Inr (ErrorResponse (str_lit ''503 Service Unavailable'')), ?t1)"
    using a handlers_catch_instances_of_Exception
      [of "failing_world ?e" sample_config "str_lit ''Hello''" "[]" ?e ?t1]
    by simp
  have r2: "transliterate_file (failing_world ?e) sample_config (broken_upload ?e) [] =
      (Inr (ErrorResponse (str_lit ''503 Service Unavailable'')), [FileRead])
    \<and> extract_and_transliterate_ner (failing_world ?e) sample_config (broken_upload ?e) [] =
      (Inr (ErrorResponse (str_lit ''503 Service Unavailable'')), [FileRead])"
    using b c handlers_catch_instances_of_Exception
      [of "failing_world ?e" sample_config _ "[]" ?e "[FileRead]" "broken_upload ?e"]
    by simp
  from a b c r1 r2 show ?thesis
    by simp
qed

section \<open>\<open>POST /ner\<close>\<close>

lemma parse_direct:
  "json_loads w s = Inr v \<Longrightarrow> parse_entities w s t = (Inr v, t)"
  by (simp add: parse_entities_def action_defs)

lemma parse_other_error:
  "json_loads w s = Inl e \<Longrightarrow> \<not> is_JSONDecodeError e \<Longrightarrow> parse_entities w s t = (Inl e, t)"
  by (simp add: parse_entities_def action_defs)

lemma parse_fenced:
  assumes "json_loads w s = Inl e" and "is_JSONDecodeError e" and "re_search s = Some g"
  shows "parse_entities w s t =
         (case json_loads w (py_strip g) of
            Inr v \<Rightarrow> (Inr v, t)
          | Inl e' \<Rightarrow> if is_JSONDecodeError e' then (Inl (could_not_extract s), t) else (Inl e', t))"
  using assms by (simp add: parse_entities_def action_defs split: sum.splits)

lemma parse_no_fence:
  assumes "json_loads w s = Inl e" and "is_JSONDecodeError e" and "re_search s = None"
  shows "parse_entities w s t = (Inl (could_not_extract s), t)"
  using assms by (simp add: parse_entities_def action_defs)

lemma parse_entities_pure: "snd (parse_entities w s t) = t"
  by (cases "json_loads w s"; cases "re_search s")
     (auto simp: parse_entities_def action_defs split: sum.splits option.splits)

lemma parse_entities_value:
  assumes "parse_entities w s t = (Inr v, t')"
  shows "json_loads w s = Inr v \<or> (\<exists>g. re_search s = Some g \<and> json_loads w (py_strip g) = Inr v)"
  using assms
  by (cases "json_loads w s"; cases "re_search s")
     (auto simp: parse_entities_def action_defs split: sum.splits option.splits if_splits)

lemma ner_body_run:
  assumes "content_type file = Some docx_mime"
    and "read_result file = Inr contents"
    and "Document w contents = Inr paragraphs"
    and "generate_content w (ner_prompt cfg (py_join newline paragraphs)) = Inr reply"
  shows "extract_and_transliterate_ner_body w cfg file t =
         py_bind (parse_entities w (py_strip reply)) (\<lambda>entities. py_pure (new_NERResponse w entities))
           (t @ [FileRead, GenerateContent (ner_prompt cfg (py_join newline paragraphs))])"
  using assms
  by (simp add: extract_and_transliterate_ner_body_def py_bind_def py_pure_def
      call_generate_content_def await_read_def)

lemma could_not_extract_str:
  "py_str (could_not_extract s) = str_lit ''400: Could not extract json for NER entities : '' @ s"
  by (simp add: could_not_extract_def str_of_nat_400 str_lit_def)

lemma could_not_extract_caught: "is_Exception (could_not_extract s)"
  by (simp add: could_not_extract_def)

lemma ner_run_parsed:
  assumes "content_type file = Some docx_mime"
    and "read_result file = Inr contents"
    and "Document w contents = Inr paragraphs"
    and "generate_content w (ner_prompt cfg (py_join newline paragraphs)) = Inr reply"
    and "parse_entities w (py_strip reply) t1 = (Inr v, t1)"
    and "t1 = t @ [FileRead, GenerateContent (ner_prompt cfg (py_join newline paragraphs))]"
  shows "extract_and_transliterate_ner w cfg file t =
         (case v of
            JObject kvs \<Rightarrow> (Inr (NERResponse kvs), t1)
          | _ \<Rightarrow> (Inr (ErrorResponse (validation_str w v)), t1))"
proof -
  have "extract_and_transliterate_ner_body w cfg file t = (new_NERResponse w v, t1)"
    using ner_body_run [OF assms(1-4), of t] assms(5,6) by (simp add: py_bind_def py_pure_def)
  then show ?thesis
    by (cases v)
       (simp_all add: extract_and_transliterate_ner_def new_NERResponse_def
          handle_Exception_def py_try_def py_return_def)
qed

lemma ner_run_unparsed:
  assumes "content_type file = Some docx_mime"
    and "read_result file = Inr contents"
    and "Document w contents = Inr paragraphs"
    and "generate_content w (ner_prompt cfg (py_join newline paragraphs)) = Inr reply"
    and "parse_entities w (py_strip reply) t1 = (Inl e, t1)" and "is_Exception e"
    and "t1 = t @ [FileRead, GenerateContent (ner_prompt cfg (py_join newline paragraphs))]"
  shows "extract_and_transliterate_ner w cfg file t = (Inr (ErrorResponse (py_str e)), t1)"
proof -
  have "extract_and_transliterate_ner_body w cfg file t = (Inl e, t1)"
    using ner_body_run [OF assms(1-4), of t] assms(5,7) by (simp add: py_bind_def)
  with assms(6) show ?thesis
    by (simp add: extract_and_transliterate_ner_def handle_Exception_def py_try_def py_return_def)
qed


lemma ner_body_success_origin:
  assumes "extract_and_transliterate_ner_body w cfg file t = (Inr (NERResponse kvs), t')"
  shows "\<exists>contents paragraphs reply.
           read_result file = Inr contents \<and> Document w contents = Inr paragraphs
           \<and> generate_content w (ner_prompt cfg (py_join newline paragraphs)) = Inr reply
           \<and> (\<exists>t0. parse_entities w (py_strip reply) t0 = (Inr (JObject kvs), t'))"
  using assms
  by (auto simp: extract_and_transliterate_ner_body_def py_bind_def py_pure_def py_raise_def
        call_generate_content_def await_read_def new_NERResponse_def Let_def
      split: if_splits sum.splits prod.splits json.splits)

lemma ner_success_origin:
  assumes "fst (extract_and_transliterate_ner w cfg file t) = Inr (NERResponse kvs)"
  shows "\<exists>contents paragraphs reply.
           read_result file = Inr contents \<and> Document w contents = Inr paragraphs
           \<and> generate_content w (ner_prompt cfg (py_join newline paragraphs)) = Inr reply
           \<and> (json_loads w (py_strip reply) = Inr (JObject kvs)
              \<or> (\<exists>g. re_search (py_strip reply) = Some g
                      \<and> json_loads w (py_strip g) = Inr (JObject kvs)))"
proof -
  obtain r t' where body: "extract_and_transliterate_ner_body w cfg file t = (r, t')"
    by (cases "extract_and_transliterate_ner_body w cfg file t")
  with assms have r: "r = Inr (NERResponse kvs)"
    by (cases r) (auto simp: extract_and_transliterate_ner_def handle_Exception_def py_try_def
        py_return_def split: if_splits)
  from ner_body_success_origin [OF body [unfolded r]] obtain contents paragraphs reply t0 where
    io: "read_result file = Inr contents" "Document w contents = Inr paragraphs"
        "generate_content w (ner_prompt cfg (py_join newline paragraphs)) = Inr reply"
    and p: "parse_entities w (py_strip reply) t0 = (Inr (JObject kvs), t')"
    by blast
  from parse_entities_value [OF p] io show ?thesis by blast
qed

text \<open>
  Claim C9.  The handler of \<open>/ner\<close> returns an \<open>NERResponse\<close> only when a JSON object
  was parsed, from the trimmed reply or from the content of its fenced block.  When the
  trimmed reply parses as JSON that is not an object (a list, a string, a number, a
  boolean or null), building the \<open>NERResponse\<close> fails validation and the handler
  returns an \<open>ErrorResponse\<close> with the text of the validation error.
\<close>

theorem ner_entities_only_for_objects:
  "(fst (extract_and_transliterate_ner w cfg file t) = Inr (NERResponse kvs) \<longrightarrow>
      (\<exists>bytes texts answer.
          read_result file = Inr bytes \<and> Document w bytes = Inr texts
          \<and> generate_content w (ner_prompt cfg (py_join newline texts)) = Inr answer
          \<and> (json_loads w (py_strip answer) = Inr (JObject kvs)
             \<or> (\<exists>g. re_search (py_strip answer) = Some g
                     \<and> json_loads w (py_strip g) = Inr (JObject kvs)))))
   \<and> (content_type file = Some docx_mime \<and> read_result file = Inr contents
       \<and> Document w contents = Inr paragraphs
       \<and> generate_content w (ner_prompt cfg (py_join newline paragraphs)) = Inr reply
       \<and> json_loads w (py_strip reply) = Inr v \<longrightarrow>
      fst (extract_and_transliterate_ner w cfg file t) =
        (case v of
           JObject kvs' \<Rightarrow> Inr (NERResponse kvs')
         | _ \<Rightarrow> Inr (ErrorResponse (validation_str w v))))"
proof (intro conjI impI)
  assume "fst (extract_and_transliterate_ner w cfg file t) = Inr (NERResponse kvs)"
  then show "\<exists>bytes texts answer.
          read_result file = Inr bytes \<and> Document w bytes = Inr texts
          \<and> generate_content w (ner_prompt cfg (py_join newline texts)) = Inr answer
          \<and> (json_loads w (py_strip answer) = Inr (JObject kvs)
             \<or> (\<exists>g. re_search (py_strip answer) = Some g
                     \<and> json_loads w (py_strip g) = Inr (JObject kvs)))"
    by (rule ner_success_origin)
next
  assume a: "content_type file = Some docx_mime \<and> read_result file = Inr contents
       \<and> Document w contents = Inr paragraphs
       \<and> generate_content w (ner_prompt cfg (py_join newline paragraphs)) = Inr reply
       \<and> json_loads w (py_strip reply) = Inr v"
  let ?t1 = "t @ [FileRead, GenerateContent (ner_prompt cfg (py_join newline paragraphs))]"
  from a have p: "parse_entities w (py_strip reply) ?t1 = (Inr v, ?t1)"
    by (simp add: parse_direct)
  from a have "extract_and_transliterate_ner w cfg file t =
         (case v of
            JObject kvs \<Rightarrow> (Inr (NERResponse kvs), ?t1)
          | _ \<Rightarrow> (Inr (ErrorResponse (validation_str w v)), ?t1))"
    using ner_run_parsed [OF _ _ _ _ p refl] by blast
  then show "fst (extract_and_transliterate_ner w cfg file t) =
        (case v of
           JObject kvs' \<Rightarrow> Inr (NERResponse kvs')
         | _ \<Rightarrow> Inr (ErrorResponse (validation_str w v)))"
    by (cases v) simp_all
qed

theorem ner_entities_only_for_objects_witness:
  "content_type sample_upload = Some docx_mime \<and> read_result sample_upload = Inr [80, 75, 3, 4]
   \<and> Document (sample_world (str_lit '' [] '')) [80, 75, 3, 4] = Inr [str_lit ''Hello'', str_lit ''world'']
   \<and> generate_content (sample_world (str_lit '' [] ''))
        (ner_prompt sample_config (py_join newline [str_lit ''Hello'', str_lit ''world''])) = Inr (str_lit '' [] '')
   \<and> json_loads (sample_world (str_lit '' [] '')) (py_strip (str_lit '' [] '')) = Inr (JArray [])
   \<and> fst (extract_and_transliterate_ner (sample_world (str_lit '' [] '')) sample_config sample_upload [])
       = Inr (ErrorResponse (str_lit ''Input should be a valid dictionary''))"
proof -
  let ?w = "sample_world (str_lit '' [] '')"
  have a: "content_type sample_upload = Some docx_mime \<and> read_result sample_upload = Inr [80, 75, 3, 4]
   \<and> Document ?w [80, 75, 3, 4] = Inr [str_lit ''Hello'', str_lit ''world'']
   \<and> generate_content ?w
        (ner_prompt sample_config (py_join newline [str_lit ''Hello'', str_lit ''world''])) = Inr (str_lit '' [] '')
   \<and> json_loads ?w (py_strip (str_lit '' [] '')) = Inr (JArray [])"
    by (simp add: sample_upload_def sample_world_def sample_loads_def py_strip_def py_lstrip_def
        py_rstrip_def py_isspace_def str_lit_def)
  have v: "validation_str ?w (JArray []) = str_lit ''Input should be a valid dictionary''"
    by (simp add: sample_world_def)
  from ner_entities_only_for_objects [of ?w sample_config sample_upload "[]" "[]" "[80, 75, 3, 4]"
      "[str_lit ''Hello'', str_lit ''world'']" "str_lit '' [] ''" "JArray []"] a
  have "fst (extract_and_transliterate_ner ?w sample_config sample_upload [])
       = Inr (ErrorResponse (validation_str ?w (JArray [])))"
    by simp
  with a v show ?thesis by simp
qed

text \<open>
  Claim C10.  Let the trimmed reply not be JSON itself, and let it be a text \<open>pre\<close>
  without a fence, a fence, the optional tag \<open>json\<close>, a content \<open>g\<close> that reaches up to
  the next fence, that fence, and any text \<open>rest\<close>.  Then the only other text parsed is
  \<open>g\<close> with the white space at its ends removed: its value is the result, and when it is
  not JSON the result is the error \<open>could_not_extract\<close>, whatever fenced blocks \<open>rest\<close>
  holds.
\<close>

theorem only_first_fenced_block_is_parsed:
  assumes "json_loads w (pre @ fence @ tag @ g @ fence @ rest) = Inl e"
    and "is_JSONDecodeError e"
    and "\<not> has_fence (pre @ [96, 96])"
    and "\<not> has_fence (g @ [96, 96])"
    and "tag = [] \<and> \<not> prefix json_tag g \<or> tag = json_tag"
  shows "parse_entities w (pre @ fence @ tag @ g @ fence @ rest) t =
         (case json_loads w (py_strip g) of
            Inr v \<Rightarrow> (Inr v, t)
          | Inl e' \<Rightarrow>
              if is_JSONDecodeError e'
              then (Inl (could_not_extract (pre @ fence @ tag @ g @ fence @ rest)), t)
              else (Inl e', t))"
proof -
  have "re_search (pre @ fence @ tag @ g @ fence @ rest) = Some g"
    using assms(3,4,5) by (rule re_search_first_block)
  with assms(1,2) show ?thesis
    by (rule parse_fenced)
qed

theorem only_first_fenced_block_is_parsed_witness:
  "json_loads (sample_world [])
      (str_lit ''Result: '' @ fence @ [] @ str_lit ''x'' @ fence @ (newline @ fence @ str_lit ''{}'' @ fence))
     = Inl expecting_value
   \<and> is_JSONDecodeError expecting_value
   \<and> \<not> has_fence (str_lit ''Result: '' @ [96, 96])
   \<and> \<not> has_fence (str_lit ''x'' @ [96, 96])
   \<and> \<not> prefix json_tag (str_lit ''x'')
   \<and> json_loads (sample_world []) (py_strip (str_lit ''{}'')) = Inr (JObject [])
   \<and> parse_entities (sample_world [])
        (str_lit ''Result: '' @ fence @ [] @ str_lit ''x'' @ fence @ (newline @ fence @ str_lit ''{}'' @ fence)) []
     = (Inl (could_not_extract
          (str_lit ''Result: '' @ fence @ [] @ str_lit ''x'' @ fence @ (newline @ fence @ str_lit ''{}'' @ fence))), [])"
proof -
  let ?w = "sample_world []"
  let ?rest = "newline @ fence @ str_lit ''{}'' @ fence"
  let ?s = "str_lit ''Result: '' @ fence @ [] @ str_lit ''x'' @ fence @ ?rest"
  have a: "json_loads ?w ?s = Inl expecting_value"
    by (simp add: sample_world_def sample_loads_def john_json_def str_lit_def fence_def newline_def)
  have b: "is_JSONDecodeError expecting_value"
    by (simp add: expecting_value_def)
  have c: "\<not> has_fence (str_lit ''Result: '' @ [96, 96])"
    by (simp add: str_lit_def fence_def)
  have d: "\<not> has_fence (str_lit ''x'' @ [96, 96])"
    by (simp add: str_lit_def fence_def)
  have e: "\<not> prefix json_tag (str_lit ''x'')"
    by (simp add: str_lit_def json_tag_def)
  then have e': "[] = [] \<and> \<not> prefix json_tag (str_lit ''x'') \<or> [] = json_tag"
    by simp
  have f: "json_loads ?w (py_strip (str_lit ''{}'')) = Inr (JObject [])"
    by (simp add: sample_world_def sample_loads_def py_strip_def py_lstrip_def py_rstrip_def
        py_isspace_def str_lit_def)
  have g: "json_loads ?w (py_strip (str_lit ''x'')) = Inl expecting_value"
    by (simp add: sample_world_def sample_loads_def john_json_def py_strip_def py_lstrip_def
        py_rstrip_def py_isspace_def str_lit_def)
  from only_first_fenced_block_is_parsed [OF a b c d e', of "[]"] g b
  have "parse_entities ?w ?s [] = (Inl (could_not_extract ?s), [])"
    by simp
  with a b c d e f show ?thesis by simp
qed

lemma sample_upload_type: "content_type sample_upload = Some docx_mime"
  by (simp add: sample_upload_def)

lemma sample_upload_read: "read_result sample_upload = Inr [80, 75, 3, 4]"
  by (simp add: sample_upload_def)

lemma sample_world_Document:
  "Document (sample_world reply) contents = Inr [str_lit ''Hello'', str_lit ''world'']"
  by (simp add: sample_world_def)

lemma sample_world_reply: "generate_content (sample_world reply) prompt = Inr reply"
  by (simp add: sample_world_def)

lemma re_search_fenced_john: "re_search fenced_john = Some (newline @ john_json @ newline)"
proof -
  have h0: "\<not> has_fence ([] @ [96, 96])"
    by (simp add: fence_def)
  have h1: "\<not> has_fence ((newline @ john_json @ newline) @ [96, 96])"
    by (simp add: newline_def john_json_def str_lit_def fence_def)
  have h2: "json_tag = [] \<and> \<not> prefix json_tag (newline @ john_json @ newline) \<or> json_tag = json_tag"
    by simp
  from re_search_first_block [OF h0 h1 h2, of "[]"]
  show ?thesis by (simp add: fenced_john_def)
qed

lemma scenario_fenced_john:
  "extract_and_transliterate_ner (sample_world fenced_john) sample_config sample_upload [] =
   (Inr (NERResponse [(str_lit ''John'', JString [2460, 2472])]),
    [FileRead, GenerateContent (ner_prompt sample_config (py_join newline [str_lit ''Hello'', str_lit ''world'']))])"
proof -
  let ?w = "sample_world fenced_john"
  let ?t1 = "[FileRead, GenerateContent (ner_prompt sample_config (py_join newline [str_lit ''Hello'', str_lit ''world'']))]"
  have strip: "py_strip fenced_john = fenced_john"
    by (simp add: fenced_john_def fence_def json_tag_def newline_def john_json_def py_strip_def
        py_lstrip_def py_rstrip_def py_isspace_def str_lit_def)
  have strip2: "py_strip (newline @ john_json @ newline) = john_json"
    by (simp add: newline_def john_json_def py_strip_def py_lstrip_def py_rstrip_def
        py_isspace_def str_lit_def)
  have l1: "json_loads ?w fenced_john = Inl expecting_value"
    by (simp add: sample_world_def sample_loads_def fenced_john_def fence_def json_tag_def
        newline_def john_json_def str_lit_def)
  have l2: "json_loads ?w john_json = Inr (JObject [(str_lit ''John'', JString [2460, 2472])])"
    by (simp add: sample_world_def sample_loads_def john_json_def str_lit_def)
  have dec: "is_JSONDecodeError expecting_value"
    by (simp add: expecting_value_def)
  have p: "parse_entities ?w (py_strip fenced_john) ?t1
           = (Inr (JObject [(str_lit ''John'', JString [2460, 2472])]), ?t1)"
    using parse_fenced [OF l1 dec re_search_fenced_john, of ?t1] by (simp add: strip strip2 l2)
  have "extract_and_transliterate_ner ?w sample_config sample_upload [] =
        (case JObject [(str_lit ''John'', JString [2460, 2472])] of
            JObject kvs \<Rightarrow> (Inr (NERResponse kvs), ?t1)
          | _ \<Rightarrow> (Inr (ErrorResponse (validation_str ?w (JObject [(str_lit ''John'', JString [2460, 2472])]))), ?t1))"
    using ner_run_parsed [OF sample_upload_type sample_upload_read
        sample_world_Document sample_world_reply p] by simp
  then show ?thesis by simp
qed

lemma re_search_cannot_process: "re_search cannot_process = None"
  by (simp add: cannot_process_def str_lit_def match_here_def fence_def)

text \<open>
  Claim C1.  A reply that is JSON is returned as parsed (\<open>parse_direct\<close>), and a reply
  that wraps JSON in a fenced block gives the parsed content of the block
  (\<open>parse_fenced\<close>, \<open>scenario_fenced_john\<close>).  For the reply
  \<open>I cannot process this.\<close>, which is neither, the \<open>HTTPException\<close> with status 400
  is caught by the handler's own \<open>except Exception\<close>: the handler returns an
  \<open>ErrorResponse\<close> whose text is \<open>400: Could not extract json for NER entities : \<close>
  followed by the trimmed reply, sent with status 200 and not with a client-error status.
\<close>

theorem ner_unparseable_reply_is_success_status:
  "extract_and_transliterate_ner (sample_world cannot_process) sample_config sample_upload [] =
     (Inr (ErrorResponse
        (str_lit ''400: Could not extract json for NER entities : I cannot process this.'')),
      [FileRead, GenerateContent (ner_prompt sample_config (py_join newline [str_lit ''Hello'', str_lit ''world'']))])
   \<and> http_status (sample_world cannot_process)
        (fst (extract_and_transliterate_ner (sample_world cannot_process) sample_config sample_upload [])) = 200"
proof -
  let ?w = "sample_world cannot_process"
  let ?t1 = "[FileRead, GenerateContent (ner_prompt sample_config (py_join newline [str_lit ''Hello'', str_lit ''world'']))]"
  have strip: "py_strip cannot_process = cannot_process"
    by (simp add: cannot_process_def py_strip_def py_lstrip_def py_rstrip_def py_isspace_def str_lit_def)
  have l1: "json_loads ?w cannot_process = Inl expecting_value"
    by (simp add: sample_world_def sample_loads_def cannot_process_def john_json_def str_lit_def)
  have dec: "is_JSONDecodeError expecting_value"
    by (simp add: expecting_value_def)
  have p: "parse_entities ?w (py_strip cannot_process) ?t1 = (Inl (could_not_extract cannot_process), ?t1)"
    using parse_no_fence [OF l1 dec re_search_cannot_process, of ?t1] by (simp add: strip)
  have "extract_and_transliterate_ner ?w sample_config sample_upload [] =
        (Inr (ErrorResponse (py_str (could_not_extract cannot_process))), ?t1)"
    using ner_run_unparsed [OF sample_upload_type sample_upload_read
        sample_world_Document sample_world_reply p could_not_extract_caught] by simp
  moreover have "py_str (could_not_extract cannot_process) =
        str_lit ''400: Could not extract json for NER entities : I cannot process this.''"
    by (simp add: could_not_extract_str cannot_process_def str_lit_def)
  ultimately show ?thesis
    by (simp add: renders_ErrorResponse encodable_str_lit)
qed

section \<open>What leaves a handler\<close>






end
